theory Spec2Isabelle
  imports Main
begin

section \<open>Athletes and achievements: the service of 4lab/main.py\<close>

text \<open>
  The service keeps two tables, \<open>athletes\<close> and \<open>achievements\<close>, and serves seven
  routes over them. A table is the list of its rows in rowid order, which is the order
  in which a query without ORDER BY returns them. Python's \<open>int\<close> is \<open>int\<close>. A Python
  \<open>str\<close> is the list of its code points, so that \<open>length\<close> is what \<open>min_length\<close>
  and \<open>max_length\<close> count.
\<close>

subsection \<open>Strings and dates\<close>

type_synonym str = "nat list"

definition ascii :: "string \<Rightarrow> str" where
  "ascii cs = map of_char cs"

text \<open>
  A code point is at most 0x10FFFF. Pydantic reads a \<open>str\<close> as UTF-8 and refuses one
  that has no UTF-8 encoding (error \<open>string_unicode\<close>): one with a surrogate, a code
  point from 0xD800 to 0xDFFF. In a Python \<open>str\<close> every surrogate is a lone one, since
  a \<open>str\<close> holds the pair of a JSON escape as the one code point it encodes.
\<close>

definition surrogate :: "nat \<Rightarrow> bool" where
  "surrogate c = (55296 \<le> c \<and> c \<le> 57343)"

definition utf8 :: "str \<Rightarrow> bool" where
  "utf8 v = list_all (\<lambda>c. \<not> surrogate c \<and> c \<le> 1114111) v"

text \<open>
  SQLite's INTEGER is a signed 64-bit number. The driver refuses to bind a Python \<open>int\<close>
  outside that range as the parameter of a statement (\<open>OverflowError\<close>).
\<close>

definition sqlite_integer :: "int \<Rightarrow> bool" where
  "sqlite_integer i = (- 9223372036854775808 \<le> i \<and> i \<le> 9223372036854775807)"

text \<open>
  \<open>datetime.date\<close> of the standard library: a year, a month and a day that exist in the
  proleptic Gregorian calendar, the year between MINYEAR = 1 and MAXYEAR = 9999. A request
  carries three numbers; \<open>is_date\<close> says whether they are a date.
\<close>

record date =
  year :: int
  month :: int
  day :: int

definition is_leap :: "int \<Rightarrow> bool" where
  "is_leap y = (y mod 4 = 0 \<and> (y mod 100 \<noteq> 0 \<or> y mod 400 = 0))"

definition days_in_month :: "int \<Rightarrow> int \<Rightarrow> int" where
  "days_in_month y m =
     (if m = 2 then (if is_leap y then 29 else 28)
      else if m = 4 \<or> m = 6 \<or> m = 9 \<or> m = 11 then 30
      else 31)"

definition is_date :: "date \<Rightarrow> bool" where
  "is_date d =
     (1 \<le> year d \<and> year d \<le> 9999 \<and> 1 \<le> month d \<and> month d \<le> 12 \<and>
      1 \<le> day d \<and> day d \<le> days_in_month (year d) (month d))"

subsection \<open>Pydantic models and table rows\<close>

text \<open>
  \<open>AthleteCreate\<close> is \<open>AthleteBase\<close>; \<open>AthleteResponse\<close> is \<open>AthleteBase\<close> with \<open>id\<close>.
  A row of \<open>athletes\<close> has the same three columns, and \<open>from_attributes\<close> copies them
  into the response, so one record stands for the row and for the response. The same
  holds for achievements. The two \<open>id\<close> columns are \<open>DBAthlete_id\<close> and
  \<open>DBAchievement_id\<close>.
\<close>

record AthleteBase =
  name :: str
  country :: str

record DBAthlete = AthleteBase +
  DBAthlete_id :: int

record AchievementBase =
  sport :: str
  result :: str
  date :: date
  athlete_id :: int

record DBAchievement = AchievementBase +
  DBAchievement_id :: int

text \<open>\<open>str = Field(..., min_length=1, max_length=100)\<close>\<close>

definition Field :: "str \<Rightarrow> bool" where
  "Field v = (utf8 v \<and> 1 \<le> length v \<and> length v \<le> 100)"

definition validate_AthleteBase :: "'a AthleteBase_scheme \<Rightarrow> bool" where
  "validate_AthleteBase a = (Field (name a) \<and> Field (country a))"

definition validate_AchievementBase :: "'a AchievementBase_scheme \<Rightarrow> bool" where
  "validate_AchievementBase b = (Field (sport b) \<and> Field (result b) \<and> is_date (date b))"

text \<open>
  The 422 response to a body that fails its model quotes the values that failed. It can
  be sent when every \<open>str\<close> of the body has a UTF-8 encoding.
\<close>

definition renderable_AthleteBase :: "'a AthleteBase_scheme \<Rightarrow> bool" where
  "renderable_AthleteBase a = (utf8 (name a) \<and> utf8 (country a))"

definition renderable_AchievementBase :: "'a AchievementBase_scheme \<Rightarrow> bool" where
  "renderable_AchievementBase b = (utf8 (sport b) \<and> utf8 (result b))"

subsection \<open>The store\<close>

record db =
  athletes :: "DBAthlete list"
  achievements :: "DBAchievement list"

text \<open>\<open>Base.metadata.create_all\<close> on a store that does not exist yet: two empty tables.\<close>

definition init :: db where
  "init = \<lparr>athletes = [], achievements = []\<rparr>"

text \<open>
  An \<open>INTEGER PRIMARY KEY\<close> column that the insert leaves out gets 1 in an empty table
  and one more than the largest key in use otherwise.
\<close>

definition next_rowid :: "int list \<Rightarrow> int" where
  "next_rowid ks = (case ks of [] \<Rightarrow> 1 | k # ks' \<Rightarrow> fold max ks' k + 1)"

definition add_athlete :: "AthleteBase \<Rightarrow> db \<Rightarrow> DBAthlete \<times> db" where
  "add_athlete a s =
     (let row = \<lparr>name = name a, country = country a,
                 DBAthlete_id = next_rowid (map DBAthlete_id (athletes s))\<rparr>
      in (row, s\<lparr>athletes := athletes s @ [row]\<rparr>))"

definition add_achievement :: "AchievementBase \<Rightarrow> db \<Rightarrow> DBAchievement \<times> db" where
  "add_achievement b s =
     (let row = \<lparr>sport = sport b, result = result b, date = date b,
                 athlete_id = athlete_id b,
                 DBAchievement_id = next_rowid (map DBAchievement_id (achievements s))\<rparr>
      in (row, s\<lparr>achievements := achievements s @ [row]\<rparr>))"

text \<open>\<open>DELETE FROM achievements WHERE id = ?\<close>\<close>

definition delete_achievement_row :: "DBAchievement \<Rightarrow> DBAchievement list \<Rightarrow> DBAchievement list" where
  "delete_achievement_row b rows = filter (\<lambda>r. DBAchievement_id r \<noteq> DBAchievement_id b) rows"

text \<open>
  \<open>athlete.achievements\<close>, the relationship of \<open>DBAthlete\<close>: the rows of \<open>achievements\<close>
  whose \<open>athlete_id\<close> is the athlete's \<open>id\<close>.
\<close>

definition achievements_of :: "DBAthlete \<Rightarrow> db \<Rightarrow> DBAchievement list" where
  "achievements_of a s = filter (\<lambda>b. athlete_id b = DBAthlete_id a) (achievements s)"

text \<open>
  \<open>db.delete(athlete); db.commit()\<close> with \<open>cascade="all, delete"\<close>: the session loads the
  athlete's achievements and deletes each of them by its key, then deletes the athlete
  by its key.
\<close>

definition delete_athlete_row :: "DBAthlete \<Rightarrow> db \<Rightarrow> db" where
  "delete_athlete_row a s =
     \<lparr>athletes = filter (\<lambda>r. DBAthlete_id r \<noteq> DBAthlete_id a) (athletes s),
      achievements = fold delete_achievement_row (achievements_of a s) (achievements s)\<rparr>"

subsection \<open>Errors\<close>

text \<open>
  \<open>HTTPException\<close> carries its status code and detail. FastAPI answers a request body
  that fails its model with 422 and a returned value that fails \<open>response_model\<close>
  with 500. No handler catches the driver's \<open>OverflowError\<close>, nor the
  \<open>UnicodeEncodeError\<close> of a 422 response that cannot be encoded: the client gets 500.
\<close>

datatype error =
    HTTPException nat string
  | RequestValidationError
  | ResponseValidationError
  | OverflowError
  | UnicodeEncodeError

definition HTTP_404_NOT_FOUND :: nat where "HTTP_404_NOT_FOUND = 404"
definition HTTP_201_CREATED :: nat where "HTTP_201_CREATED = 201"
definition HTTP_204_NO_CONTENT :: nat where "HTTP_204_NO_CONTENT = 204"

fun status_code :: "error + nat \<times> 'a \<Rightarrow> nat" where
  "status_code (Inl (HTTPException c d)) = c"
| "status_code (Inl RequestValidationError) = 422"
| "status_code (Inl ResponseValidationError) = 500"
| "status_code (Inl OverflowError) = 500"
| "status_code (Inl UnicodeEncodeError) = 500"
| "status_code (Inr (c, v)) = c"

subsection \<open>Helper functions\<close>

definition get_athlete_or_404 :: "db \<Rightarrow> int \<Rightarrow> error + DBAthlete" where
  "get_athlete_or_404 s aid =
     (if \<not> sqlite_integer aid then Inl OverflowError
      else case find (\<lambda>a. DBAthlete_id a = aid) (athletes s) of
        None \<Rightarrow> Inl (HTTPException HTTP_404_NOT_FOUND ''Athlete not found'')
      | Some athlete \<Rightarrow> Inr athlete)"

definition get_achievement_or_404 :: "db \<Rightarrow> int \<Rightarrow> error + DBAchievement" where
  "get_achievement_or_404 s bid =
     (if \<not> sqlite_integer bid then Inl OverflowError
      else case find (\<lambda>b. DBAchievement_id b = bid) (achievements s) of
        None \<Rightarrow> Inl (HTTPException HTTP_404_NOT_FOUND ''Achievement not found'')
      | Some achievement \<Rightarrow> Inr achievement)"

subsection \<open>The functions of the endpoints\<close>

text \<open>
  Each function takes the store and returns what the Python function returns (or the
  exception it raises) and the store after it.
\<close>

definition get_athletes :: "db \<Rightarrow> (error + DBAthlete list) \<times> db" where
  "get_athletes s = (Inr (athletes s), s)"

definition create_athlete :: "AthleteBase \<Rightarrow> db \<Rightarrow> (error + DBAthlete) \<times> db" where
  "create_athlete athlete s = (case add_athlete athlete s of (row, s') \<Rightarrow> (Inr row, s'))"

definition get_athlete_achievements :: "int \<Rightarrow> db \<Rightarrow> (error + DBAchievement list) \<times> db" where
  "get_athlete_achievements aid s =
     (case get_athlete_or_404 s aid of
        Inl e \<Rightarrow> (Inl e, s)
      | Inr athlete \<Rightarrow> (Inr (achievements_of athlete s), s))"

definition delete_athlete :: "int \<Rightarrow> db \<Rightarrow> (error + unit) \<times> db" where
  "delete_athlete aid s =
     (case get_athlete_or_404 s aid of
        Inl e \<Rightarrow> (Inl e, s)
      | Inr athlete \<Rightarrow> (Inr (), delete_athlete_row athlete s))"

definition get_achievements :: "int option \<Rightarrow> db \<Rightarrow> (error + DBAchievement list) \<times> db" where
  "get_achievements aid s =
     (case aid of
        None \<Rightarrow> (Inr (achievements s), s)
      | Some i \<Rightarrow>
          if \<not> sqlite_integer i then (Inl OverflowError, s)
          else (Inr (filter (\<lambda>b. athlete_id b = i) (achievements s)), s))"

definition create_achievement :: "AchievementBase \<Rightarrow> db \<Rightarrow> (error + DBAchievement) \<times> db" where
  "create_achievement achievement s =
     (case get_athlete_or_404 s (athlete_id achievement) of
        Inl e \<Rightarrow> (Inl e, s)
      | Inr athlete \<Rightarrow> (case add_achievement achievement s of (row, s') \<Rightarrow> (Inr row, s')))"

definition delete_achievement :: "int \<Rightarrow> db \<Rightarrow> (error + unit) \<times> db" where
  "delete_achievement bid s =
     (case get_achievement_or_404 s bid of
        Inl e \<Rightarrow> (Inl e, s)
      | Inr achievement \<Rightarrow>
          (Inr (), s\<lparr>achievements := delete_achievement_row achievement (achievements s)\<rparr>))"

subsection \<open>The routes\<close>

text \<open>
  What the decorators add. A body parameter is validated against its model before the
  function runs; the function's result is validated against \<open>response_model\<close> and sent
  with the route's status code (200 unless the decorator names another).
\<close>

definition request_validation_error :: "bool \<Rightarrow> error" where
  "request_validation_error renderable =
     (if renderable then RequestValidationError else UnicodeEncodeError)"

definition respond :: "nat \<Rightarrow> ('a \<Rightarrow> bool) \<Rightarrow> (error + 'a) \<times> db \<Rightarrow> (error + nat \<times> 'a) \<times> db" where
  "respond code model r =
     (case r of
        (Inl e, s) \<Rightarrow> (Inl e, s)
      | (Inr v, s) \<Rightarrow> if model v then (Inr (code, v), s) else (Inl ResponseValidationError, s))"

definition GET_athletes :: "db \<Rightarrow> (error + nat \<times> DBAthlete list) \<times> db" where
  "GET_athletes s = respond 200 (list_all validate_AthleteBase) (get_athletes s)"

definition POST_athletes :: "AthleteBase \<Rightarrow> db \<Rightarrow> (error + nat \<times> DBAthlete) \<times> db" where
  "POST_athletes body s =
     (if validate_AthleteBase body
      then respond HTTP_201_CREATED validate_AthleteBase (create_athlete body s)
      else (Inl (request_validation_error (renderable_AthleteBase body)), s))"

definition GET_athlete_achievements :: "int \<Rightarrow> db \<Rightarrow> (error + nat \<times> DBAchievement list) \<times> db" where
  "GET_athlete_achievements aid s =
     respond 200 (list_all validate_AchievementBase) (get_athlete_achievements aid s)"

definition DELETE_athlete :: "int \<Rightarrow> db \<Rightarrow> (error + nat \<times> unit) \<times> db" where
  "DELETE_athlete aid s = respond HTTP_204_NO_CONTENT (\<lambda>_. True) (delete_athlete aid s)"

definition GET_achievements :: "int option \<Rightarrow> db \<Rightarrow> (error + nat \<times> DBAchievement list) \<times> db" where
  "GET_achievements aid s =
     respond 200 (list_all validate_AchievementBase) (get_achievements aid s)"

definition POST_achievements :: "AchievementBase \<Rightarrow> db \<Rightarrow> (error + nat \<times> DBAchievement) \<times> db" where
  "POST_achievements body s =
     (if validate_AchievementBase body
      then respond HTTP_201_CREATED validate_AchievementBase (create_achievement body s)
      else (Inl (request_validation_error (renderable_AchievementBase body)), s))"

definition DELETE_achievement :: "int \<Rightarrow> db \<Rightarrow> (error + nat \<times> unit) \<times> db" where
  "DELETE_achievement bid s = respond HTTP_204_NO_CONTENT (\<lambda>_. True) (delete_achievement bid s)"

subsection \<open>The service as a whole\<close>

datatype request =
    ListAthletes
  | CreateAthlete AthleteBase
  | ListAthleteAchievements int
  | DeleteAthlete int
  | ListAchievements "int option"
  | CreateAchievement AchievementBase
  | DeleteAchievement int

text \<open>The store after a request, whatever the response was.\<close>

fun step :: "request \<Rightarrow> db \<Rightarrow> db" where
  "step ListAthletes s = snd (GET_athletes s)"
| "step (CreateAthlete body) s = snd (POST_athletes body s)"
| "step (ListAthleteAchievements aid) s = snd (GET_athlete_achievements aid s)"
| "step (DeleteAthlete aid) s = snd (DELETE_athlete aid s)"
| "step (ListAchievements aid) s = snd (GET_achievements aid s)"
| "step (CreateAchievement body) s = snd (POST_achievements body s)"
| "step (DeleteAchievement bid) s = snd (DELETE_achievement bid s)"

text \<open>The stores the service can be in: the empty one and what requests make of it.\<close>

inductive reachable :: "db \<Rightarrow> bool" where
  reachable_init: "reachable init"
| reachable_step: "reachable s \<Longrightarrow> reachable (step r s)"

subsection \<open>Properties of a store\<close>

text \<open>Every achievement refers to an athlete of the table \<open>athletes\<close>.\<close>

definition references_live :: "db \<Rightarrow> bool" where
  "references_live s =
     list_all (\<lambda>b. athlete_id b \<in> DBAthlete_id ` set (athletes s)) (achievements s)"

text \<open>The primary keys: no two rows of a table have the same \<open>id\<close>.\<close>

definition keys_unique :: "db \<Rightarrow> bool" where
  "keys_unique s =
     (distinct (map DBAthlete_id (athletes s)) \<and>
      distinct (map DBAchievement_id (achievements s)))"

text \<open>Every row satisfies the model it came in through.\<close>

definition rows_valid :: "db \<Rightarrow> bool" where
  "rows_valid s =
     (list_all validate_AthleteBase (athletes s) \<and>
      list_all validate_AchievementBase (achievements s))"

subsection \<open>A run of the service\<close>

text \<open>
  Two athletes and three achievements, entered through the routes; the first athlete and
  the first achievement are the example of the specification.
\<close>

definition alice :: AthleteBase where
  "alice = \<lparr>name = ascii ''Alice'', country = ascii ''US''\<rparr>"

definition bob :: AthleteBase where
  "bob = \<lparr>name = ascii ''Bob'', country = ascii ''UK''\<rparr>"

definition sprint :: AchievementBase where
  "sprint = \<lparr>sport = ascii ''Run'', result = ascii ''9.58s'',
             date = \<lparr>year = 2024, month = 1, day = 1\<rparr>, athlete_id = 1\<rparr>"

definition swim :: AchievementBase where
  "swim = \<lparr>sport = ascii ''Swim'', result = ascii ''50s'',
           date = \<lparr>year = 2024, month = 2, day = 29\<rparr>, athlete_id = 2\<rparr>"

definition jump :: AchievementBase where
  "jump = \<lparr>sport = ascii ''Jump'', result = ascii ''8m'',
           date = \<lparr>year = 2023, month = 6, day = 30\<rparr>, athlete_id = 1\<rparr>"

definition example_db :: db where
  "example_db =
     fold step [CreateAthlete alice, CreateAthlete bob, CreateAchievement sprint,
                CreateAchievement swim, CreateAchievement jump] init"

section \<open>Lemmas about the store\<close>

lemmas route_defs =
  GET_athletes_def POST_athletes_def GET_athlete_achievements_def DELETE_athlete_def
  GET_achievements_def POST_achievements_def DELETE_achievement_def respond_def
  get_athletes_def create_athlete_def get_athlete_achievements_def delete_athlete_def
  get_achievements_def create_achievement_def delete_achievement_def

lemmas store_defs =
  get_athlete_or_404_def get_achievement_or_404_def add_athlete_def add_achievement_def
  delete_athlete_row_def delete_achievement_row_def achievements_of_def next_rowid_def
  HTTP_404_NOT_FOUND_def HTTP_201_CREATED_def HTTP_204_NO_CONTENT_def sqlite_integer_def

lemmas model_defs =
  validate_AthleteBase_def validate_AchievementBase_def Field_def is_date_def
  days_in_month_def is_leap_def ascii_def utf8_def surrogate_def
  renderable_AthleteBase_def renderable_AchievementBase_def request_validation_error_def

lemma fold_max_ge: "(k::int) \<le> fold max ks k \<and> (\<forall>x \<in> set ks. x \<le> fold max ks k)"
proof (induction ks arbitrary: k)
  case Nil
  then show ?case by simp
next
  case (Cons a ks)
  have "max a k \<le> fold max ks (max a k)" using Cons.IH by blast
  moreover have "\<forall>x \<in> set ks. x \<le> fold max ks (max a k)" using Cons.IH by blast
  ultimately show ?case by auto
qed

lemma next_rowid_fresh: "next_rowid ks \<notin> set ks"
proof (cases ks)
  case Nil
  then show ?thesis by simp
next
  case (Cons k ks')
  have "\<forall>x \<in> set (k # ks'). x < fold max ks' k + 1"
    using fold_max_ge [of k ks'] by auto
  then show ?thesis using Cons by (auto simp: next_rowid_def)
qed

lemma get_athlete_or_404_overflow:
  "\<not> sqlite_integer aid \<Longrightarrow> get_athlete_or_404 s aid = Inl OverflowError"
  by (simp add: get_athlete_or_404_def)

lemma get_athlete_or_404_absent:
  "sqlite_integer aid \<Longrightarrow> aid \<notin> DBAthlete_id ` set (athletes s) \<Longrightarrow>
   get_athlete_or_404 s aid = Inl (HTTPException 404 ''Athlete not found'')"
  by (auto simp: get_athlete_or_404_def HTTP_404_NOT_FOUND_def find_None_iff split: option.splits)

lemma get_athlete_or_404_present:
  "sqlite_integer aid \<Longrightarrow> aid \<in> DBAthlete_id ` set (athletes s) \<Longrightarrow>
   \<exists>a. get_athlete_or_404 s aid = Inr a \<and> a \<in> set (athletes s) \<and> DBAthlete_id a = aid"
  by (auto simp: get_athlete_or_404_def find_None_iff find_Some_iff split: option.splits)




lemma fold_delete_achievement_row:
  "fold delete_achievement_row bs rows =
   filter (\<lambda>r. DBAchievement_id r \<notin> set (map DBAchievement_id bs)) rows"
proof (induction bs arbitrary: rows)
  case Nil
  then show ?case by simp
next
  case (Cons b bs)
  have "fold delete_achievement_row (b # bs) rows =
        filter (\<lambda>r. DBAchievement_id r \<notin> set (map DBAchievement_id bs))
          (delete_achievement_row b rows)"
    by (simp add: Cons.IH)
  also have "\<dots> = filter (\<lambda>r. DBAchievement_id r \<notin> set (map DBAchievement_id (b # bs))) rows"
    unfolding delete_achievement_row_def filter_filter
    by (rule filter_cong) auto
  finally show ?case .
qed

lemma cascade_removes_owned:
  "b \<in> set (fold delete_achievement_row (achievements_of a s) (achievements s)) \<Longrightarrow>
   b \<in> set (achievements s) \<and> athlete_id b \<noteq> DBAthlete_id a"
  by (auto simp: fold_delete_achievement_row achievements_of_def)


subsection \<open>What a request does to the store\<close>

lemma snd_respond: "snd (respond code model r) = snd r"
  by (cases r) (auto simp: respond_def split: sum.splits)

lemma step_reads:
  "snd (GET_athletes s) = s"
  "snd (GET_athlete_achievements aid s) = s"
  "snd (GET_achievements f s) = s"
  by (simp_all add: GET_athletes_def GET_athlete_achievements_def GET_achievements_def
        snd_respond get_athletes_def get_athlete_achievements_def get_achievements_def
        split: sum.splits option.splits)

lemma step_CreateAthlete:
  "step (CreateAthlete body) s =
     (if validate_AthleteBase body then snd (add_athlete body s) else s)"
  by (simp add: POST_athletes_def snd_respond create_athlete_def split: prod.splits)

lemma step_DeleteAthlete:
  "step (DeleteAthlete aid) s =
     (case get_athlete_or_404 s aid of Inl e \<Rightarrow> s | Inr a \<Rightarrow> delete_athlete_row a s)"
  by (simp add: DELETE_athlete_def snd_respond delete_athlete_def split: sum.splits)

lemma step_CreateAchievement:
  "step (CreateAchievement body) s =
     (if validate_AchievementBase body
      then (case get_athlete_or_404 s (athlete_id body) of
              Inl e \<Rightarrow> s | Inr a \<Rightarrow> snd (add_achievement body s))
      else s)"
  by (simp add: POST_achievements_def snd_respond create_achievement_def
        split: sum.splits prod.splits)

lemma step_DeleteAchievement:
  "step (DeleteAchievement bid) s =
     (case get_achievement_or_404 s bid of
        Inl e \<Rightarrow> s
      | Inr b \<Rightarrow> s\<lparr>achievements := delete_achievement_row b (achievements s)\<rparr>)"
  by (simp add: DELETE_achievement_def snd_respond delete_achievement_def split: sum.splits)

lemma get_athlete_or_404_Inr:
  "get_athlete_or_404 s aid = Inr a \<Longrightarrow> a \<in> set (athletes s) \<and> DBAthlete_id a = aid"
  by (auto simp: get_athlete_or_404_def find_Some_iff split: option.splits if_splits)

lemma get_achievement_or_404_Inr:
  "get_achievement_or_404 s bid = Inr b \<Longrightarrow> b \<in> set (achievements s) \<and> DBAchievement_id b = bid"
  by (auto simp: get_achievement_or_404_def find_Some_iff split: option.splits if_splits)

lemma references_live_init: "references_live init"
  by (simp add: references_live_def init_def)

lemma references_live_add_athlete:
  "references_live s \<Longrightarrow> references_live (snd (add_athlete body s))"
  by (auto simp: references_live_def add_athlete_def Let_def list_all_iff)

lemma references_live_add_achievement:
  "references_live s \<Longrightarrow> athlete_id body \<in> DBAthlete_id ` set (athletes s) \<Longrightarrow>
   references_live (snd (add_achievement body s))"
  by (auto simp: references_live_def add_achievement_def Let_def list_all_iff)

lemma references_live_delete_athlete_row:
  assumes "references_live s"
  shows "references_live (delete_athlete_row a s)"
proof -
  have "athlete_id b \<in> DBAthlete_id ` set (athletes (delete_athlete_row a s))"
    if "b \<in> set (achievements (delete_athlete_row a s))" for b
  proof -
    from that have b: "b \<in> set (achievements s)" "athlete_id b \<noteq> DBAthlete_id a"
      using cascade_removes_owned [of b a s] by (simp_all add: delete_athlete_row_def)
    from assms b(1) obtain r where "r \<in> set (athletes s)" "DBAthlete_id r = athlete_id b"
      by (auto simp: references_live_def list_all_iff)
    with b(2) show ?thesis
      by (force simp: delete_athlete_row_def)
  qed
  then show ?thesis
    by (simp add: references_live_def list_all_iff)
qed

lemma references_live_delete_achievement_row:
  "references_live s \<Longrightarrow>
   references_live (s\<lparr>achievements := delete_achievement_row b (achievements s)\<rparr>)"
  by (auto simp: references_live_def delete_achievement_row_def list_all_iff)

lemma references_live_step: "references_live s \<Longrightarrow> references_live (step r s)"
proof (cases r)
  case (CreateAthlete body)
  assume "references_live s"
  then show ?thesis
    unfolding CreateAthlete step_CreateAthlete by (simp add: references_live_add_athlete)
next
  case (DeleteAthlete aid)
  assume "references_live s"
  then show ?thesis
    unfolding DeleteAthlete step_DeleteAthlete
    by (simp add: references_live_delete_athlete_row split: sum.splits)
next
  case (CreateAchievement body)
  assume "references_live s"
  moreover have "athlete_id body \<in> DBAthlete_id ` set (athletes s)"
    if "get_athlete_or_404 s (athlete_id body) = Inr a" for a
    using get_athlete_or_404_Inr [OF that] by force
  ultimately show ?thesis
    unfolding CreateAchievement step_CreateAchievement
    by (simp add: references_live_add_achievement split: sum.splits)
next
  case (DeleteAchievement bid)
  assume "references_live s"
  then show ?thesis
    unfolding DeleteAchievement step_DeleteAchievement
    by (simp add: references_live_delete_achievement_row split: sum.splits)
qed (simp_all add: step_reads)

lemma keys_unique_init: "keys_unique init"
  by (simp add: keys_unique_def init_def)

lemma keys_unique_step: "keys_unique s \<Longrightarrow> keys_unique (step r s)"
proof (cases r)
  case (CreateAthlete body)
  assume "keys_unique s"
  then show ?thesis
    unfolding CreateAthlete step_CreateAthlete
    using next_rowid_fresh [of "map DBAthlete_id (athletes s)"]
    by (simp add: keys_unique_def add_athlete_def Let_def)
next
  case (DeleteAthlete aid)
  assume "keys_unique s"
  then show ?thesis
    unfolding DeleteAthlete step_DeleteAthlete
    by (simp add: keys_unique_def delete_athlete_row_def fold_delete_achievement_row
          distinct_map_filter split: sum.splits)
next
  case (CreateAchievement body)
  assume "keys_unique s"
  then show ?thesis
    unfolding CreateAchievement step_CreateAchievement
    using next_rowid_fresh [of "map DBAchievement_id (achievements s)"]
    by (simp add: keys_unique_def add_achievement_def Let_def split: sum.splits)
next
  case (DeleteAchievement bid)
  assume "keys_unique s"
  then show ?thesis
    unfolding DeleteAchievement step_DeleteAchievement
    by (simp add: keys_unique_def delete_achievement_row_def distinct_map_filter
          split: sum.splits)
qed (simp_all add: step_reads)

lemma rows_valid_init: "rows_valid init"
  by (simp add: rows_valid_def init_def)

lemma rows_valid_step: "rows_valid s \<Longrightarrow> rows_valid (step r s)"
proof (cases r)
  case (CreateAthlete body)
  assume "rows_valid s"
  then show ?thesis
    unfolding CreateAthlete step_CreateAthlete
    by (simp add: rows_valid_def add_athlete_def Let_def validate_AthleteBase_def)
next
  case (DeleteAthlete aid)
  assume "rows_valid s"
  then show ?thesis
    unfolding DeleteAthlete step_DeleteAthlete
    by (auto simp: rows_valid_def delete_athlete_row_def fold_delete_achievement_row
          list_all_iff split: sum.splits)
next
  case (CreateAchievement body)
  assume "rows_valid s"
  then show ?thesis
    unfolding CreateAchievement step_CreateAchievement
    by (simp add: rows_valid_def add_achievement_def Let_def validate_AchievementBase_def
          split: sum.splits)
next
  case (DeleteAchievement bid)
  assume "rows_valid s"
  then show ?thesis
    unfolding DeleteAchievement step_DeleteAchievement
    by (auto simp: rows_valid_def delete_achievement_row_def list_all_iff split: sum.splits)
qed (simp_all add: step_reads)

lemma reachable_invariants:
  "reachable s \<Longrightarrow> keys_unique s \<and> rows_valid s \<and> references_live s"
proof (induction rule: reachable.induct)
  case reachable_init
  show ?case
    by (simp add: keys_unique_init rows_valid_init references_live_init)
next
  case (reachable_step s r)
  then show ?case
    by (simp add: keys_unique_step rows_valid_step references_live_step)
qed

subsection \<open>The example run\<close>

lemmas example_defs = example_db_def alice_def bob_def sprint_def swim_def jump_def init_def

lemma example_db_eq:
  "example_db =
     \<lparr>athletes =
        [\<lparr>name = ascii ''Alice'', country = ascii ''US'', DBAthlete_id = 1\<rparr>,
         \<lparr>name = ascii ''Bob'', country = ascii ''UK'', DBAthlete_id = 2\<rparr>],
      achievements =
        [\<lparr>sport = ascii ''Run'', result = ascii ''9.58s'',
          date = \<lparr>year = 2024, month = 1, day = 1\<rparr>, athlete_id = 1, DBAchievement_id = 1\<rparr>,
         \<lparr>sport = ascii ''Swim'', result = ascii ''50s'',
          date = \<lparr>year = 2024, month = 2, day = 29\<rparr>, athlete_id = 2, DBAchievement_id = 2\<rparr>,
         \<lparr>sport = ascii ''Jump'', result = ascii ''8m'',
          date = \<lparr>year = 2023, month = 6, day = 30\<rparr>, athlete_id = 1, DBAchievement_id = 3\<rparr>]\<rparr>"
  by (simp add: example_defs route_defs store_defs model_defs Let_def)

lemma example_db_reachable: "reachable example_db"
  unfolding example_db_def by (simp only: fold_simps o_apply id_apply) (intro reachable.intros)

lemma example_db_invariants:
  "keys_unique example_db \<and> rows_valid example_db \<and> references_live example_db"
  using reachable_invariants [OF example_db_reachable] .

lemmas eval_defs = example_db_eq route_defs store_defs model_defs Let_def

section \<open>The claims\<close>

text \<open>
  The service starts from the empty store and changes it through the routes only, so its
  stores are the \<open>reachable\<close> ones, and by \<open>reachable_invariants\<close> each of them
  has unique keys, valid rows and live references. Where a claim needs one of these
  three properties, its theorem assumes that property alone.
\<close>




text \<open>
  C2. Every achievement's \<open>athlete_id\<close> is the identifier of an athlete of the table
  \<open>athletes\<close>: this holds in the initial, empty store, and if it holds before a request
  of any of the seven kinds it holds after it, whatever the response.
\<close>

theorem references_live_invariant:
  "references_live init \<and> (references_live s \<longrightarrow> references_live (step r s))"
  using references_live_init references_live_step by blast

theorem references_live_invariant_witness:
  "references_live init \<and> references_live example_db \<and>
   references_live (step (DeleteAthlete 1) example_db) \<and>
   step (DeleteAthlete 1) example_db \<noteq> example_db"
proof -
  have live: "references_live example_db"
    by (simp add: example_db_invariants)
  have "step (DeleteAthlete 1) example_db \<noteq> example_db"
    by (simp add: eval_defs)
  then show ?thesis
    using live references_live_invariant [of example_db "DeleteAthlete 1"] by blast
qed

lemma Field_iff: "Field v \<longleftrightarrow> utf8 v \<and> \<not> (v = [] \<or> 100 < length v)"
  by (cases v) (auto simp: Field_def)

lemma validate_AchievementBase_iff:
  "validate_AchievementBase body \<longleftrightarrow>
     utf8 (sport body) \<and> utf8 (result body) \<and>
     \<not> (sport body = [] \<or> 100 < length (sport body) \<or>
        result body = [] \<or> 100 < length (result body) \<or> \<not> is_date (date body))"
  by (auto simp: validate_AchievementBase_def Field_iff)

lemma validate_AthleteBase_iff:
  "validate_AthleteBase body \<longleftrightarrow>
     utf8 (name body) \<and> utf8 (country body) \<and>
     \<not> (name body = [] \<or> 100 < length (name body) \<or>
        country body = [] \<or> 100 < length (country body))"
  by (auto simp: validate_AthleteBase_def Field_iff)

lemma POST_achievements_invalid:
  "\<not> validate_AchievementBase body \<Longrightarrow>
   POST_achievements body s =
     (Inl (if utf8 (sport body) \<and> utf8 (result body)
           then RequestValidationError else UnicodeEncodeError), s)"
  by (simp add: POST_achievements_def request_validation_error_def
        renderable_AchievementBase_def)

lemma POST_achievements_overflow:
  "validate_AchievementBase body \<Longrightarrow> \<not> sqlite_integer (athlete_id body) \<Longrightarrow>
   POST_achievements body s = (Inl OverflowError, s)"
  by (simp add: POST_achievements_def create_achievement_def respond_def
        get_athlete_or_404_overflow)

lemma POST_achievements_absent:
  "validate_AchievementBase body \<Longrightarrow> sqlite_integer (athlete_id body) \<Longrightarrow>
   athlete_id body \<notin> DBAthlete_id ` set (athletes s) \<Longrightarrow>
   POST_achievements body s = (Inl (HTTPException 404 ''Athlete not found''), s)"
  by (simp add: POST_achievements_def create_achievement_def respond_def
        get_athlete_or_404_absent)

lemma POST_achievements_created:
  assumes "validate_AchievementBase body"
    and "sqlite_integer (athlete_id body)"
    and "athlete_id body \<in> DBAthlete_id ` set (athletes s)"
  shows "POST_achievements body s =
           (Inr (201, fst (add_achievement body s)), snd (add_achievement body s))"
proof -
  obtain a where "get_athlete_or_404 s (athlete_id body) = Inr a"
    using get_athlete_or_404_present [OF assms(2) assms(3)] by blast
  moreover have "validate_AchievementBase (fst (add_achievement body s))"
    using assms(1) by (simp add: add_achievement_def Let_def validate_AchievementBase_def)
  ultimately show ?thesis
    using assms(1)
    by (simp add: POST_achievements_def create_achievement_def respond_def
          HTTP_201_CREATED_def case_prod_beta)
qed

text \<open>
  C3, as stated, fails: a body whose \<open>sport\<close> is empty and whose \<open>athlete_id\<close>
  matches no athlete is answered with ValidationError (422), not with NotFound (404).
  The body is validated against \<open>AchievementCreate\<close> before \<open>create_achievement\<close>
  runs, and \<open>get_athlete_or_404\<close> is called inside it.
\<close>

theorem create_achievement_not_found_counterexample:
  "athlete_id (sprint\<lparr>sport := []\<rparr>) \<notin> DBAthlete_id ` set (athletes init) \<and>
   POST_achievements (sprint\<lparr>sport := []\<rparr>) init = (Inl RequestValidationError, init) \<and>
   status_code (fst (POST_achievements (sprint\<lparr>sport := []\<rparr>) init)) \<noteq> 404"
  by (simp add: sprint_def init_def POST_achievements_def model_defs)

text \<open>
  C3, amended. POST /achievements with a body whose \<open>sport\<close> and \<open>result\<close> have a
  UTF-8 encoding (no surrogate code point): when \<open>sport\<close> or \<open>result\<close> is empty or
  longer than 100 characters or \<open>date\<close> is not a calendar date, the response is
  ValidationError (422), whether or not the athlete exists. When the fields are valid
  and \<open>athlete_id\<close> is in the signed 64-bit range, the response is NotFound (404) if no
  athlete has that identifier; otherwise it is 201 with the new achievement: the body's
  fields and an identifier that no achievement of the store has; the new row is
  appended to \<open>achievements\<close> and nothing else changes. On either failure the store is
  unchanged. A valid body whose \<open>athlete_id\<close> is outside the range fails with
  \<open>OverflowError\<close>, and a body with a surrogate in \<open>sport\<close> or \<open>result\<close> with
  \<open>UnicodeEncodeError\<close>; both leave the store unchanged.
\<close>

theorem create_achievement_validation_first:
  "(utf8 (sport body) \<and> utf8 (result body) \<and>
    (sport body = [] \<or> 100 < length (sport body) \<or>
     result body = [] \<or> 100 < length (result body) \<or> \<not> is_date (date body)) \<longrightarrow>
      POST_achievements body s = (Inl RequestValidationError, s) \<and>
      status_code (fst (POST_achievements body s)) = 422) \<and>
   (utf8 (sport body) \<and> utf8 (result body) \<and>
    \<not> (sport body = [] \<or> 100 < length (sport body) \<or>
       result body = [] \<or> 100 < length (result body) \<or> \<not> is_date (date body)) \<longrightarrow>
      (sqlite_integer (athlete_id body) \<and>
       athlete_id body \<notin> DBAthlete_id ` set (athletes s) \<longrightarrow>
         POST_achievements body s = (Inl (HTTPException 404 ''Athlete not found''), s)) \<and>
      (sqlite_integer (athlete_id body) \<and>
       athlete_id body \<in> DBAthlete_id ` set (athletes s) \<longrightarrow>
         (\<exists>row. POST_achievements body s =
                   (Inr (201, row), s\<lparr>achievements := achievements s @ [row]\<rparr>) \<and>
                 sport row = sport body \<and> result row = result body \<and>
                 date row = date body \<and> athlete_id row = athlete_id body \<and>
                 DBAchievement_id row \<notin> DBAchievement_id ` set (achievements s))) \<and>
      (\<not> sqlite_integer (athlete_id body) \<longrightarrow>
         POST_achievements body s = (Inl OverflowError, s))) \<and>
   (\<not> (utf8 (sport body) \<and> utf8 (result body)) \<longrightarrow>
      POST_achievements body s = (Inl UnicodeEncodeError, s))"
proof -
  let ?bad = "sport body = [] \<or> 100 < length (sport body) \<or>
     result body = [] \<or> 100 < length (result body) \<or> \<not> is_date (date body)"
  let ?utf8 = "utf8 (sport body) \<and> utf8 (result body)"
  let ?row = "fst (add_achievement body s)"
  have invalid: "POST_achievements body s = (Inl RequestValidationError, s)" if "?utf8" "?bad"
    using that validate_AchievementBase_iff [of body] POST_achievements_invalid [of body s]
    by auto
  have refused: "POST_achievements body s = (Inl UnicodeEncodeError, s)" if "\<not> ?utf8"
    using that validate_AchievementBase_iff [of body] POST_achievements_invalid [of body s]
    by auto
  have valid: "validate_AchievementBase body" if "?utf8" "\<not> ?bad"
    using that validate_AchievementBase_iff [of body] by blast
  have created: "\<exists>row. POST_achievements body s =
                   (Inr (201, row), s\<lparr>achievements := achievements s @ [row]\<rparr>) \<and>
                 sport row = sport body \<and> result row = result body \<and>
                 date row = date body \<and> athlete_id row = athlete_id body \<and>
                 DBAchievement_id row \<notin> DBAchievement_id ` set (achievements s)"
    if "?utf8" "\<not> ?bad" "sqlite_integer (athlete_id body)"
      "athlete_id body \<in> DBAthlete_id ` set (athletes s)"
  proof -
    have "POST_achievements body s =
        (Inr (201, ?row), s\<lparr>achievements := achievements s @ [?row]\<rparr>)"
      using POST_achievements_created [OF valid [OF that(1) that(2)] that(3) that(4)]
      by (simp add: add_achievement_def Let_def)
    moreover have "sport ?row = sport body \<and> result ?row = result body \<and>
                   date ?row = date body \<and> athlete_id ?row = athlete_id body"
      by (simp add: add_achievement_def Let_def)
    moreover have "DBAchievement_id ?row \<notin> DBAchievement_id ` set (achievements s)"
      using next_rowid_fresh [of "map DBAchievement_id (achievements s)"]
      by (simp add: add_achievement_def Let_def)
    ultimately show ?thesis by blast
  qed
  have "status_code (fst (POST_achievements body s)) = 422" if "?utf8" "?bad"
    using invalid [OF that] by simp
  then show ?thesis
    using invalid refused created valid POST_achievements_absent [of body s]
      POST_achievements_overflow [of body s]
    by blast
qed

theorem create_achievement_validation_first_witness:
  "utf8 (sport (sprint\<lparr>sport := []\<rparr>)) \<and> utf8 (result (sprint\<lparr>sport := []\<rparr>)) \<and>
   sport (sprint\<lparr>sport := []\<rparr>) = [] \<and>
   POST_achievements (sprint\<lparr>sport := []\<rparr>) example_db =
     (Inl RequestValidationError, example_db) \<and>
   utf8 (sport sprint) \<and> utf8 (result sprint) \<and>
   \<not> (sport sprint = [] \<or> 100 < length (sport sprint) \<or>
      result sprint = [] \<or> 100 < length (result sprint) \<or> \<not> is_date (date sprint)) \<and>
   sqlite_integer (athlete_id sprint) \<and>
   athlete_id sprint \<notin> DBAthlete_id ` set (athletes init) \<and>
   POST_achievements sprint init = (Inl (HTTPException 404 ''Athlete not found''), init) \<and>
   athlete_id sprint \<in> DBAthlete_id ` set (athletes example_db) \<and>
   (\<exists>row. POST_achievements sprint example_db =
            (Inr (201, row), example_db\<lparr>achievements := achievements example_db @ [row]\<rparr>) \<and>
          sport row = sport sprint \<and> result row = result sprint \<and>
          date row = date sprint \<and> athlete_id row = athlete_id sprint \<and>
          DBAchievement_id row \<notin> DBAchievement_id ` set (achievements example_db)) \<and>
   \<not> (utf8 (sport (sprint\<lparr>sport := [55296]\<rparr>)) \<and>
      utf8 (result (sprint\<lparr>sport := [55296]\<rparr>))) \<and>
   POST_achievements (sprint\<lparr>sport := [55296]\<rparr>) example_db =
     (Inl UnicodeEncodeError, example_db) \<and>
   \<not> sqlite_integer (athlete_id (sprint\<lparr>athlete_id := 9223372036854775808\<rparr>)) \<and>
   POST_achievements (sprint\<lparr>athlete_id := 9223372036854775808\<rparr>) example_db =
     (Inl OverflowError, example_db)"
proof -
  have big: "utf8 (sport (sprint\<lparr>athlete_id := 9223372036854775808\<rparr>)) \<and>
      utf8 (result (sprint\<lparr>athlete_id := 9223372036854775808\<rparr>))"
    "\<not> (sport (sprint\<lparr>athlete_id := 9223372036854775808\<rparr>) = [] \<or>
      100 < length (sport (sprint\<lparr>athlete_id := 9223372036854775808\<rparr>)) \<or>
      result (sprint\<lparr>athlete_id := 9223372036854775808\<rparr>) = [] \<or>
      100 < length (result (sprint\<lparr>athlete_id := 9223372036854775808\<rparr>)) \<or>
      \<not> is_date (date (sprint\<lparr>athlete_id := 9223372036854775808\<rparr>)))"
    "\<not> sqlite_integer (athlete_id (sprint\<lparr>athlete_id := 9223372036854775808\<rparr>))"
    by (simp_all add: sprint_def model_defs sqlite_integer_def)
  from big create_achievement_validation_first
    [of "sprint\<lparr>athlete_id := 9223372036854775808\<rparr>" example_db]
  have r5: "POST_achievements (sprint\<lparr>athlete_id := 9223372036854775808\<rparr>) example_db =
     (Inl OverflowError, example_db)"
    by blast
  have empty: "utf8 (sport (sprint\<lparr>sport := []\<rparr>)) \<and> utf8 (result (sprint\<lparr>sport := []\<rparr>))"
    "sport (sprint\<lparr>sport := []\<rparr>) = []"
    by (simp_all add: sprint_def model_defs)
  have valid: "utf8 (sport sprint) \<and> utf8 (result sprint)"
    "\<not> (sport sprint = [] \<or> 100 < length (sport sprint) \<or>
      result sprint = [] \<or> 100 < length (result sprint) \<or> \<not> is_date (date sprint))"
    "sqlite_integer (athlete_id sprint)"
    by (simp_all add: sprint_def model_defs sqlite_integer_def)
  have absent: "athlete_id sprint \<notin> DBAthlete_id ` set (athletes init)"
    by (simp add: init_def)
  have present: "athlete_id sprint \<in> DBAthlete_id ` set (athletes example_db)"
    by (simp add: example_db_eq sprint_def)
  have lone: "\<not> (utf8 (sport (sprint\<lparr>sport := [55296]\<rparr>)) \<and>
      utf8 (result (sprint\<lparr>sport := [55296]\<rparr>)))"
    by (simp add: sprint_def model_defs)
  from empty create_achievement_validation_first [of "sprint\<lparr>sport := []\<rparr>" example_db]
  have r1: "POST_achievements (sprint\<lparr>sport := []\<rparr>) example_db =
     (Inl RequestValidationError, example_db)"
    by blast
  from valid absent create_achievement_validation_first [of sprint init]
  have r2: "POST_achievements sprint init = (Inl (HTTPException 404 ''Athlete not found''), init)"
    by blast
  from valid present create_achievement_validation_first [of sprint example_db]
  have r3: "\<exists>row. POST_achievements sprint example_db =
            (Inr (201, row), example_db\<lparr>achievements := achievements example_db @ [row]\<rparr>) \<and>
          sport row = sport sprint \<and> result row = result sprint \<and>
          date row = date sprint \<and> athlete_id row = athlete_id sprint \<and>
          DBAchievement_id row \<notin> DBAchievement_id ` set (achievements example_db)"
    by blast
  from lone create_achievement_validation_first [of "sprint\<lparr>sport := [55296]\<rparr>" example_db]
  have r4: "POST_achievements (sprint\<lparr>sport := [55296]\<rparr>) example_db =
     (Inl UnicodeEncodeError, example_db)"
    by blast
  show ?thesis
    by (intro conjI) (fact empty valid absent present lone big(3) r1 r2 r3 r4 r5
      empty(1) [THEN conjunct1] empty(1) [THEN conjunct2]
      valid(1) [THEN conjunct1] valid(1) [THEN conjunct2])+
qed

lemma POST_athletes_created:
  assumes "validate_AthleteBase body"
  shows "POST_athletes body s = (Inr (201, fst (add_athlete body s)), snd (add_athlete body s))"
proof -
  have "validate_AthleteBase (fst (add_athlete body s))"
    using assms by (simp add: add_athlete_def Let_def validate_AthleteBase_def)
  then show ?thesis
    using assms
    by (simp add: POST_athletes_def create_athlete_def respond_def HTTP_201_CREATED_def
          case_prod_beta)
qed

lemma POST_athletes_invalid:
  "\<not> validate_AthleteBase body \<Longrightarrow>
   POST_athletes body s =
     (Inl (if utf8 (name body) \<and> utf8 (country body)
           then RequestValidationError else UnicodeEncodeError), s)"
  by (simp add: POST_athletes_def request_validation_error_def renderable_AthleteBase_def)

lemma add_athlete_row:
  "snd (add_athlete body s) = s\<lparr>athletes := athletes s @ [fst (add_athlete body s)]\<rparr> \<and>
   name (fst (add_athlete body s)) = name body \<and>
   country (fst (add_athlete body s)) = country body \<and>
   DBAthlete_id (fst (add_athlete body s)) \<notin> DBAthlete_id ` set (athletes s)"
  using next_rowid_fresh [of "map DBAthlete_id (athletes s)"]
  by (simp add: add_athlete_def Let_def)

text \<open>
  C4, as stated, fails: the name of one code point 0xD800, a surrogate, is neither empty
  nor longer than 100 characters, and POST /athletes with it inserts nothing. Pydantic
  refuses a \<open>str\<close> that has no UTF-8 encoding, and the client gets 500.
\<close>

theorem create_athlete_surrogate_counterexample:
  "\<not> (name \<lparr>name = [55296], country = ascii ''US''\<rparr> = [] \<or>
      100 < length (name \<lparr>name = [55296], country = ascii ''US''\<rparr>) \<or>
      country \<lparr>name = [55296], country = ascii ''US''\<rparr> = [] \<or>
      100 < length (country \<lparr>name = [55296], country = ascii ''US''\<rparr>)) \<and>
   POST_athletes \<lparr>name = [55296], country = ascii ''US''\<rparr> init =
     (Inl UnicodeEncodeError, init) \<and>
   status_code (fst (POST_athletes \<lparr>name = [55296], country = ascii ''US''\<rparr> init)) = 500"
  by (simp add: init_def POST_athletes_def model_defs)

text \<open>
  C4, amended. POST /athletes with a body whose \<open>name\<close> and \<open>country\<close> have a UTF-8
  encoding (no surrogate code point): the response is ValidationError (422) if and
  only if \<open>name\<close> or \<open>country\<close> is empty or longer than 100 characters, and then the
  store is unchanged. Otherwise the response is 201 with the new athlete: the body's
  name and country and an identifier that no athlete of the store has, so that unique
  keys stay unique; the new row is appended to \<open>athletes\<close> and nothing else changes.
  A body with a surrogate in \<open>name\<close> or \<open>country\<close> is never answered 422: it fails
  with \<open>UnicodeEncodeError\<close> and the store is unchanged.
\<close>

theorem create_athlete_validation:
  "(status_code (fst (POST_athletes body s)) = 422 \<longleftrightarrow>
      utf8 (name body) \<and> utf8 (country body) \<and>
      (name body = [] \<or> 100 < length (name body) \<or>
       country body = [] \<or> 100 < length (country body))) \<and>
   (utf8 (name body) \<and> utf8 (country body) \<and>
    (name body = [] \<or> 100 < length (name body) \<or>
     country body = [] \<or> 100 < length (country body)) \<longrightarrow>
      POST_athletes body s = (Inl RequestValidationError, s)) \<and>
   (utf8 (name body) \<and> utf8 (country body) \<and>
    \<not> (name body = [] \<or> 100 < length (name body) \<or>
       country body = [] \<or> 100 < length (country body)) \<longrightarrow>
      (\<exists>row. POST_athletes body s = (Inr (201, row), s\<lparr>athletes := athletes s @ [row]\<rparr>) \<and>
             name row = name body \<and> country row = country body \<and>
             DBAthlete_id row \<notin> DBAthlete_id ` set (athletes s) \<and>
             (keys_unique s \<longrightarrow> keys_unique (s\<lparr>athletes := athletes s @ [row]\<rparr>)))) \<and>
   (\<not> (utf8 (name body) \<and> utf8 (country body)) \<longrightarrow>
      POST_athletes body s = (Inl UnicodeEncodeError, s))"
proof -
  let ?bad = "name body = [] \<or> 100 < length (name body) \<or>
      country body = [] \<or> 100 < length (country body)"
  let ?utf8 = "utf8 (name body) \<and> utf8 (country body)"
  let ?row = "fst (add_athlete body s)"
  have invalid: "POST_athletes body s = (Inl RequestValidationError, s)" if "?utf8" "?bad"
    using that validate_AthleteBase_iff [of body] POST_athletes_invalid [of body s] by auto
  have refused: "POST_athletes body s = (Inl UnicodeEncodeError, s)" if "\<not> ?utf8"
    using that validate_AthleteBase_iff [of body] POST_athletes_invalid [of body s] by auto
  have created: "POST_athletes body s = (Inr (201, ?row), s\<lparr>athletes := athletes s @ [?row]\<rparr>)"
    if "?utf8" "\<not> ?bad"
  proof -
    from that have "validate_AthleteBase body"
      using validate_AthleteBase_iff [of body] by blast
    then show ?thesis
      using POST_athletes_created [of body s] add_athlete_row [of body s] by simp
  qed
  have keys: "keys_unique (s\<lparr>athletes := athletes s @ [?row]\<rparr>)" if "keys_unique s"
    using that add_athlete_row [of body s] by (simp add: keys_unique_def)
  have "status_code (fst (POST_athletes body s)) = 422 \<longleftrightarrow> ?utf8 \<and> ?bad"
  proof (cases "?utf8")
    case False
    from refused [OF False] False show ?thesis by auto
  next
    case True
    show ?thesis
    proof (cases "?bad")
      case True
      from invalid [OF \<open>?utf8\<close> True] \<open>?utf8\<close> True show ?thesis by simp
    next
      case False
      from created [OF \<open>?utf8\<close> False] \<open>?utf8\<close> False show ?thesis by simp
    qed
  qed
  moreover have "\<exists>row. POST_athletes body s = (Inr (201, row), s\<lparr>athletes := athletes s @ [row]\<rparr>) \<and>
             name row = name body \<and> country row = country body \<and>
             DBAthlete_id row \<notin> DBAthlete_id ` set (athletes s) \<and>
             (keys_unique s \<longrightarrow> keys_unique (s\<lparr>athletes := athletes s @ [row]\<rparr>))"
    if "?utf8" "\<not> ?bad"
    using created [OF that] add_athlete_row [of body s] keys by blast
  ultimately show ?thesis
    using invalid refused by blast
qed

theorem create_athlete_validation_witness:
  "utf8 (name (alice\<lparr>name := []\<rparr>)) \<and> utf8 (country (alice\<lparr>name := []\<rparr>)) \<and>
   name (alice\<lparr>name := []\<rparr>) = [] \<and>
   status_code (fst (POST_athletes (alice\<lparr>name := []\<rparr>) example_db)) = 422 \<and>
   POST_athletes (alice\<lparr>name := []\<rparr>) example_db = (Inl RequestValidationError, example_db) \<and>
   utf8 (name alice) \<and> utf8 (country alice) \<and>
   \<not> (name alice = [] \<or> 100 < length (name alice) \<or>
      country alice = [] \<or> 100 < length (country alice)) \<and>
   status_code (fst (POST_athletes alice example_db)) \<noteq> 422 \<and>
   keys_unique example_db \<and>
   (\<exists>row. POST_athletes alice example_db =
            (Inr (201, row), example_db\<lparr>athletes := athletes example_db @ [row]\<rparr>) \<and>
          name row = name alice \<and> country row = country alice \<and>
          DBAthlete_id row \<notin> DBAthlete_id ` set (athletes example_db) \<and>
          keys_unique (example_db\<lparr>athletes := athletes example_db @ [row]\<rparr>)) \<and>
   \<not> (utf8 (name (alice\<lparr>country := [57343]\<rparr>)) \<and> utf8 (country (alice\<lparr>country := [57343]\<rparr>))) \<and>
   POST_athletes (alice\<lparr>country := [57343]\<rparr>) example_db = (Inl UnicodeEncodeError, example_db)"
proof -
  have empty: "utf8 (name (alice\<lparr>name := []\<rparr>)) \<and> utf8 (country (alice\<lparr>name := []\<rparr>))"
    "name (alice\<lparr>name := []\<rparr>) = []"
    by (simp_all add: alice_def model_defs)
  have valid: "utf8 (name alice) \<and> utf8 (country alice)"
    "\<not> (name alice = [] \<or> 100 < length (name alice) \<or>
      country alice = [] \<or> 100 < length (country alice))"
    by (simp_all add: alice_def model_defs)
  have lone: "\<not> (utf8 (name (alice\<lparr>country := [57343]\<rparr>)) \<and>
      utf8 (country (alice\<lparr>country := [57343]\<rparr>)))"
    by (simp add: alice_def model_defs)
  have keys: "keys_unique example_db"
    by (simp add: example_db_invariants)
  from empty create_athlete_validation [of "alice\<lparr>name := []\<rparr>" example_db]
  have r1: "status_code (fst (POST_athletes (alice\<lparr>name := []\<rparr>) example_db)) = 422"
    and r2: "POST_athletes (alice\<lparr>name := []\<rparr>) example_db =
      (Inl RequestValidationError, example_db)"
    by blast+
  from valid keys create_athlete_validation [of alice example_db]
  have r3: "status_code (fst (POST_athletes alice example_db)) \<noteq> 422"
    and r4: "\<exists>row. POST_athletes alice example_db =
            (Inr (201, row), example_db\<lparr>athletes := athletes example_db @ [row]\<rparr>) \<and>
          name row = name alice \<and> country row = country alice \<and>
          DBAthlete_id row \<notin> DBAthlete_id ` set (athletes example_db) \<and>
          keys_unique (example_db\<lparr>athletes := athletes example_db @ [row]\<rparr>)"
    by blast+
  from lone create_athlete_validation [of "alice\<lparr>country := [57343]\<rparr>" example_db]
  have r5: "POST_athletes (alice\<lparr>country := [57343]\<rparr>) example_db =
      (Inl UnicodeEncodeError, example_db)"
    by blast
  show ?thesis
    by (intro conjI) (fact empty valid lone keys r1 r2 r3 r4 r5
      empty(1) [THEN conjunct1] empty(1) [THEN conjunct2]
      valid(1) [THEN conjunct1] valid(1) [THEN conjunct2])+
qed








text \<open>
  C7. A valid body is one that \<open>AthleteCreate\<close> accepts: \<open>name\<close> and \<open>country\<close> are
  strings with a UTF-8 encoding of 1 to 100 characters. On a store with valid rows,
  POST /athletes with a valid body and then GET /athletes: the first response is 201
  with the new athlete, which has the body's name and country; the second is 200 with
  a list in which the new athlete occurs exactly once, and in which exactly one athlete
  has its identifier.
\<close>

theorem created_athlete_listed_once:
  assumes "validate_AthleteBase body" and "rows_valid s"
  shows "\<exists>row s' listed.
           POST_athletes body s = (Inr (201, row), s') \<and>
           name row = name body \<and> country row = country body \<and>
           GET_athletes s' = (Inr (200, listed), s') \<and>
           count_list listed row = 1 \<and>
           length (filter (\<lambda>a. DBAthlete_id a = DBAthlete_id row) listed) = 1"
proof -
  let ?row = "fst (add_athlete body s)"
  let ?s' = "snd (add_athlete body s)"
  note row = add_athlete_row [of body s]
  have post: "POST_athletes body s = (Inr (201, ?row), ?s')"
    using assms(1) by (rule POST_athletes_created)
  have ath: "athletes ?s' = athletes s @ [?row]"
    using row by simp
  have "validate_AthleteBase ?row"
    using assms(1) row by (simp add: validate_AthleteBase_def)
  then have "list_all validate_AthleteBase (athletes ?s')"
    using assms(2) by (simp add: ath rows_valid_def)
  then have get: "GET_athletes ?s' = (Inr (200, athletes ?s'), ?s')"
    by (simp add: GET_athletes_def get_athletes_def respond_def)
  have "DBAthlete_id ?row \<notin> DBAthlete_id ` set (athletes s)"
    using row by blast
  then have fresh: "\<forall>a \<in> set (athletes s). DBAthlete_id a \<noteq> DBAthlete_id ?row"
    by (metis imageI)
  then have "filter (\<lambda>a. DBAthlete_id a = DBAthlete_id ?row) (athletes s) = []"
    by (simp add: filter_empty_conv)
  then have once_id: "length (filter (\<lambda>a. DBAthlete_id a = DBAthlete_id ?row) (athletes ?s')) = 1"
    by (simp add: ath)
  have "?row \<notin> set (athletes s)"
    using fresh by blast
  then have "count_list (athletes s) ?row = 0"
    by (simp add: count_list_0_iff)
  then have once: "count_list (athletes ?s') ?row = 1"
    by (simp add: ath)
  show ?thesis
    using post row get once once_id by blast
qed

theorem created_athlete_listed_once_witness:
  "validate_AthleteBase alice \<and> rows_valid example_db \<and>
   (\<exists>row s' listed.
      POST_athletes alice example_db = (Inr (201, row), s') \<and>
      name row = name alice \<and> country row = country alice \<and>
      GET_athletes s' = (Inr (200, listed), s') \<and>
      count_list listed row = 1 \<and>
      length (filter (\<lambda>a. DBAthlete_id a = DBAthlete_id row) listed) = 1)"
proof -
  have valid: "validate_AthleteBase alice"
    by (simp add: alice_def model_defs)
  have rows: "rows_valid example_db"
    by (simp add: example_db_invariants)
  show ?thesis
    using valid rows created_athlete_listed_once [OF valid rows] by blast
qed





text \<open>
  C9. GET /athletes, GET /athletes/{id}/achievements and GET /achievements, with or
  without the filter, leave the store as it was, whatever they respond and whatever the
  identifier; in particular GET /athletes/{id}/achievements does when it fails with
  NotFound, as it does for an identifier in the signed 64-bit range that no athlete has.
\<close>

theorem reads_leave_store:
  "snd (GET_athletes s) = s \<and>
   snd (GET_athlete_achievements aid s) = s \<and>
   snd (GET_achievements None s) = s \<and>
   snd (GET_achievements (Some i) s) = s \<and>
   (sqlite_integer aid \<and> aid \<notin> DBAthlete_id ` set (athletes s) \<longrightarrow>
      GET_athlete_achievements aid s = (Inl (HTTPException 404 ''Athlete not found''), s))"
proof (intro conjI impI)
  assume "sqlite_integer aid \<and> aid \<notin> DBAthlete_id ` set (athletes s)"
  then show "GET_athlete_achievements aid s = (Inl (HTTPException 404 ''Athlete not found''), s)"
    by (simp add: GET_athlete_achievements_def get_athlete_achievements_def respond_def
          get_athlete_or_404_absent)
qed (rule step_reads)+

theorem reads_leave_store_witness:
  "sqlite_integer 7 \<and> 7 \<notin> DBAthlete_id ` set (athletes example_db) \<and>
   GET_athlete_achievements 7 example_db =
     (Inl (HTTPException 404 ''Athlete not found''), example_db) \<and>
   snd (GET_athletes example_db) = example_db \<and>
   snd (GET_athlete_achievements 1 example_db) = example_db \<and>
   snd (GET_achievements None example_db) = example_db \<and>
   snd (GET_achievements (Some 1) example_db) = example_db \<and>
   snd (GET_athlete_achievements 9223372036854775808 example_db) = example_db \<and>
   snd (GET_achievements (Some 9223372036854775808) example_db) = example_db"
proof -
  have absent: "sqlite_integer 7 \<and> 7 \<notin> DBAthlete_id ` set (athletes example_db)"
    by (simp add: example_db_eq sqlite_integer_def)
  show ?thesis
    using absent reads_leave_store [of example_db 7 1] reads_leave_store [of example_db 1 1]
      reads_leave_store [of example_db 9223372036854775808 9223372036854775808]
    by blast
qed




end
